theory Spec2Isabelle
  imports Main
begin

section \<open>Data model of \<open>Lean.Meta.Tactic.UnifyEq\<close>\<close>

text \<open>
  The module is compiler output: every value is an opaque runtime object and every
  monadic step takes the reader context and the world token and returns either
  \<open>ok value world\<close> (object tag 0) or \<open>error exception world\<close> (object tag 1).
  The embedding keeps that shape.  Hierarchical names are lists of their string
  components, so \<open>Meta.debug\<close> is \<open>[''Meta'', ''debug'']\<close>.
\<close>

type_synonym name = "string list"
type_synonym fvar_id = nat

text \<open>
  Expressions carry the constructor order of the runtime (\<open>fvar\<close> has tag 1, the tag
  the dispatcher tests).  Binder names and binder annotations are left out, so that the
  runtime's \<open>lean_expr_eqv\<close> (equality up to binder names) is equality of the datatype.
\<close>

datatype expr =
    bvar nat
  | fvar fvar_id
  | mvar nat
  | sortE nat
  | constE name "nat list"
  | app expr expr
  | lam expr expr
  | forallE expr expr
  | letE expr expr expr
  | lit nat
  | mdata expr
  | proj name nat expr

datatype messageData =
    stringToMessageData string
  | ofExpr expr
  | indentExpr expr
  | compose messageData messageData

datatype exception =
    Exception_error nat messageData
  | Exception_internal nat

datatype ('a, 's) result =
    ok 'a 's
  | error exception 's

record localDecl =
  LocalDecl_fvarId :: fvar_id
  LocalDecl_userName :: name
  LocalDecl_type :: expr
  LocalDecl_index :: nat

record ('g, 'sub) UnifyEqResult =
  mvarId :: 'g
  subst :: 'sub
  numNewEqs :: nat

datatype 'g injectionResultCore =
    InjectionResultCore_solved
  | InjectionResultCore_subgoal 'g nat

text \<open>
  Everything the module calls and does not define: the term oracle, the context manager,
  the constructor-equality primitive and the trace sink.  \<open>'g\<close> is the goal handle,
  \<open>'sub\<close> the substitution, \<open>'c\<close> the reader context, \<open>'s\<close> the world.
  \<open>instantiateMVars\<close>, \<open>isTracingEnabledFor\<close>, \<open>addTrace\<close> and
  \<open>addMessageContextFull\<close> have no error branch: the code reads their value without
  testing the tag.
\<close>

record ('g, 'sub, 'c, 's) oracles =
  mvarContext :: "'g \<Rightarrow> 'c \<Rightarrow> 's \<Rightarrow> 'c"
  getLocalDecl :: "fvar_id \<Rightarrow> 'c \<Rightarrow> 's \<Rightarrow> (localDecl, 's) result"
  instantiateMVars :: "expr \<Rightarrow> 'c \<Rightarrow> 's \<Rightarrow> expr \<times> 's"
  isExprDefEq :: "expr \<Rightarrow> expr \<Rightarrow> 'c \<Rightarrow> 's \<Rightarrow> (bool, 's) result"
  whnf :: "expr \<Rightarrow> 'c \<Rightarrow> 's \<Rightarrow> (expr, 's) result"
  inferType :: "expr \<Rightarrow> 'c \<Rightarrow> 's \<Rightarrow> (expr, 's) result"
  mkEqOfHEq :: "expr \<Rightarrow> 'c \<Rightarrow> 's \<Rightarrow> (expr, 's) result"
  mkEq :: "expr \<Rightarrow> expr \<Rightarrow> 'c \<Rightarrow> 's \<Rightarrow> (expr, 's) result"
  assert :: "'g \<Rightarrow> name \<Rightarrow> expr \<Rightarrow> expr \<Rightarrow> 'c \<Rightarrow> 's \<Rightarrow> ('g, 's) result"
  clear :: "'g \<Rightarrow> fvar_id \<Rightarrow> 'c \<Rightarrow> 's \<Rightarrow> ('g, 's) result"
  substCore :: "'g \<Rightarrow> fvar_id \<Rightarrow> bool \<Rightarrow> 'sub \<Rightarrow> bool \<Rightarrow> bool \<Rightarrow> 'c \<Rightarrow> 's \<Rightarrow> ('sub \<times> 'g, 's) result"
  injectionCore :: "'g \<Rightarrow> fvar_id \<Rightarrow> 'c \<Rightarrow> 's \<Rightarrow> ('g injectionResultCore, 's) result"
  isConstructorApp :: "'s \<Rightarrow> expr \<Rightarrow> bool"
  isTracingEnabledFor :: "name \<Rightarrow> 'c \<Rightarrow> 's \<Rightarrow> bool \<times> 's"
  addTrace :: "name \<Rightarrow> messageData \<Rightarrow> 'c \<Rightarrow> 's \<Rightarrow> 's"
  addMessageContextFull :: "messageData \<Rightarrow> 'c \<Rightarrow> 's \<Rightarrow> messageData \<times> 's"
  ctxRef :: "'c \<Rightarrow> nat"

section \<open>Helpers the module imports from \<open>Lean.Expr\<close> and the monad library\<close>

text \<open>
  Modelled from the spec: the bodies of \<open>Lean.Expr.isAppOfArity\<close>, \<open>isHEq\<close>,
  \<open>appFn!\<close> and \<open>appArg!\<close> are not part of this module (only their declarations
  are).  The classifier is "purely structural (exact arity match against the two
  equality-proposition shapes)": a constant applied to exactly the given number of
  arguments.
\<close>

fun isAppOfArity :: "expr \<Rightarrow> name \<Rightarrow> nat \<Rightarrow> bool" where
  "isAppOfArity (constE c ls) n 0 = (c = n)"
| "isAppOfArity (app f a) n (Suc k) = isAppOfArity f n k"
| "isAppOfArity e n k = False"

definition isHEq :: "expr \<Rightarrow> bool" where
  "isHEq e = isAppOfArity e [''HEq''] 4"

text \<open>
  \<open>appFn!\<close> and \<open>appArg!\<close> report a panic on a non-application and return the
  default expression; the dispatcher calls them only behind \<open>isAppOfArity _ Eq 3\<close>.
\<close>

definition panic_default :: expr where
  "panic_default = constE [''_inhabitedExprDummy''] []"

fun appFn_x21 :: "expr \<Rightarrow> expr" where
  "appFn_x21 (app f a) = f"
| "appFn_x21 e = panic_default"

fun appArg_x21 :: "expr \<Rightarrow> expr" where
  "appArg_x21 (app f a) = a"
| "appArg_x21 e = panic_default"

text \<open>
  Modelled from the spec: \<open>observing?\<close> is imported.  "The attempt is observed before
  commit; it never partially mutates the context": a failed action yields \<open>None\<close> and
  the world it started from.  The code reads its value without testing the tag.
\<close>

definition observing_x3f :: "('s \<Rightarrow> ('a, 's) result) \<Rightarrow> 's \<Rightarrow> 'a option \<times> 's" where
  "observing_x3f x s = (case x s of ok a s' \<Rightarrow> (Some a, s') | error e s' \<Rightarrow> (None, s))"

text \<open>
  Modelled from the spec: \<open>withMVarContext\<close> is imported; it runs the action with the
  goal's local context installed in the reader context.
\<close>

definition withMVarContext ::
  "('g, 'sub, 'c, 's) oracles \<Rightarrow> 'g \<Rightarrow> ('c \<Rightarrow> 's \<Rightarrow> 'r) \<Rightarrow> 'c \<Rightarrow> 's \<Rightarrow> 'r" where
  "withMVarContext env g k c s = k (mvarContext env g c s) s"

section \<open>The module's functions\<close>

text \<open>\<open>throwError\<close> (the specialisation at line 282): the exception carries the
  reader context's \<open>ref\<close> and the message with its context attached.\<close>

definition throwError ::
  "('g, 'sub, 'c, 's) oracles \<Rightarrow> messageData \<Rightarrow> 'c \<Rightarrow> 's \<Rightarrow> ('a, 's) result" where
  "throwError env msg c s =
     (case addMessageContextFull env msg c s of
        (msg', s') \<Rightarrow> error (Exception_error (ctxRef env c) msg') s')"

definition failed_to_solve :: "expr \<Rightarrow> messageData" where
  "failed_to_solve ty =
     compose
       (compose
          (stringToMessageData ''dependent elimination failed, failed to solve equation'')
          (indentExpr ty))
       (stringToMessageData '''')"

definition failed_to_solve_at_case :: "expr \<Rightarrow> name \<Rightarrow> messageData" where
  "failed_to_solve_at_case ty caseName =
     compose
       (compose
          (compose
             (compose
                (stringToMessageData ''dependent elimination failed, failed to solve equation'')
                (indentExpr ty))
             (stringToMessageData (CHR 0x0A # ''at case '')))
          (ofExpr (constE caseName [])))
       (stringToMessageData '''')"

definition equality_expected :: "expr \<Rightarrow> messageData" where
  "equality_expected ty =
     compose
       (compose (stringToMessageData ''equality expected'') (indentExpr ty))
       (stringToMessageData '''')"

definition trace_reduced :: "string \<Rightarrow> expr \<Rightarrow> expr \<Rightarrow> messageData" where
  "trace_reduced label e e' =
     compose
       (compose
          (compose (compose (stringToMessageData label) (ofExpr e))
             (stringToMessageData '' ==> ''))
          (ofExpr e'))
       (stringToMessageData '''')"

definition heqToEq' ::
  "('g, 'sub, 'c, 's) oracles \<Rightarrow> 'g \<Rightarrow> localDecl \<Rightarrow> 'c \<Rightarrow> 's \<Rightarrow> ('g, 's) result" where
  "heqToEq' env mvarId0 eqDecl c s =
     (case mkEqOfHEq env (fvar (LocalDecl_fvarId eqDecl)) c s of
        error e s1 \<Rightarrow> error e s1
      | ok prf s1 \<Rightarrow>
          (case inferType env prf c s1 of
             error e s2 \<Rightarrow> error e s2
           | ok ty s2 \<Rightarrow>
               (case whnf env ty c s2 of
                  error e s3 \<Rightarrow> error e s3
                | ok aEqb s3 \<Rightarrow>
                    (case assert env mvarId0 (LocalDecl_userName eqDecl) aEqb prf c s3 of
                       error e s4 \<Rightarrow> error e s4
                     | ok mvarId1 s4 \<Rightarrow>
                         clear env mvarId1 (LocalDecl_fvarId eqDecl) c s4))))"

definition substEq ::
  "('g, 'sub, 'c, 's) oracles \<Rightarrow> 'g \<Rightarrow> fvar_id \<Rightarrow> 'sub \<Rightarrow>
   ('g \<Rightarrow> expr \<Rightarrow> 'c \<Rightarrow> 's \<Rightarrow> (bool, 's) result) \<Rightarrow> localDecl \<Rightarrow> expr \<Rightarrow> expr \<Rightarrow> bool \<Rightarrow>
   'c \<Rightarrow> 's \<Rightarrow> (('g, 'sub) UnifyEqResult option, 's) result" where
  "substEq env mvarId0 eqFVarId subst0 acyclicM eqDecl a b symm c s =
     (case observing_x3f (substCore env mvarId0 eqFVarId symm subst0 True False c) s of
        (Some (substNew, mvarId1), s1) \<Rightarrow>
          ok (Some \<lparr>mvarId = mvarId1, subst = substNew, numNewEqs = 0\<rparr>) s1
      | (None, s1) \<Rightarrow>
          (case isExprDefEq env a b c s1 of
             error e s2 \<Rightarrow> error e s2
           | ok d s2 \<Rightarrow>
               if d then
                 (case clear env mvarId0 eqFVarId c s2 of
                    error e s3 \<Rightarrow> error e s3
                  | ok mvarId1 s3 \<Rightarrow>
                      ok (Some \<lparr>mvarId = mvarId1, subst = subst0, numNewEqs = 0\<rparr>) s3)
               else
                 (case acyclicM mvarId0 (fvar eqFVarId) c s2 of
                    error e s3 \<Rightarrow> error e s3
                  | ok r s3 \<Rightarrow>
                      if r then ok None s3
                      else throwError env (failed_to_solve (LocalDecl_type eqDecl)) c s3)))"

definition injection_lambda_1 ::
  "('g, 'sub, 'c, 's) oracles \<Rightarrow> fvar_id \<Rightarrow> expr \<Rightarrow> expr \<Rightarrow> localDecl \<Rightarrow> 'g \<Rightarrow> 'sub \<Rightarrow>
   expr \<Rightarrow> expr \<Rightarrow> name option \<Rightarrow> 'c \<Rightarrow> 's \<Rightarrow> (('g, 'sub) UnifyEqResult option, 's) result" where
  "injection_lambda_1 env eqFVarId a' b' eqDecl mvarId0 subst0 a b caseName c s =
     (if a' = a \<and> b' = b then
        (case caseName of
           None \<Rightarrow> throwError env (failed_to_solve (LocalDecl_type eqDecl)) c s
         | Some cn \<Rightarrow>
             throwError env (failed_to_solve_at_case (LocalDecl_type eqDecl) cn) c s)
      else
        (case mkEq env a' b' c s of
           error e s1 \<Rightarrow> error e s1
         | ok aEqb' s1 \<Rightarrow>
             (case assert env mvarId0 (LocalDecl_userName eqDecl) aEqb' (fvar eqFVarId) c s1 of
                error e s2 \<Rightarrow> error e s2
              | ok mvarId1 s2 \<Rightarrow>
                  (case clear env mvarId1 eqFVarId c s2 of
                     error e s3 \<Rightarrow> error e s3
                   | ok mvarId2 s3 \<Rightarrow>
                       ok (Some \<lparr>mvarId = mvarId2, subst = subst0, numNewEqs = 1\<rparr>) s3))))"

definition injection_lambda_2 ::
  "('g, 'sub, 'c, 's) oracles \<Rightarrow> fvar_id \<Rightarrow> expr \<Rightarrow> expr \<Rightarrow> localDecl \<Rightarrow> 'g \<Rightarrow> 'sub \<Rightarrow>
   expr \<Rightarrow> expr \<Rightarrow> name option \<Rightarrow> name \<Rightarrow> 'c \<Rightarrow> 's \<Rightarrow>
   (('g, 'sub) UnifyEqResult option, 's) result" where
  "injection_lambda_2 env eqFVarId a' b' eqDecl mvarId0 subst0 a b caseName cls c s =
     (case isTracingEnabledFor env cls c s of
        (enabled, s1) \<Rightarrow>
          if \<not> enabled then
            injection_lambda_1 env eqFVarId a' b' eqDecl mvarId0 subst0 a b caseName c s1
          else
            injection_lambda_1 env eqFVarId a' b' eqDecl mvarId0 subst0 a b caseName c
              (addTrace env cls (trace_reduced ''b: '' b b') c s1))"

definition injection ::
  "('g, 'sub, 'c, 's) oracles \<Rightarrow> 'g \<Rightarrow> fvar_id \<Rightarrow> 'sub \<Rightarrow> name option \<Rightarrow> localDecl \<Rightarrow>
   expr \<Rightarrow> expr \<Rightarrow> 'c \<Rightarrow> 's \<Rightarrow> (('g, 'sub) UnifyEqResult option, 's) result" where
  "injection env mvarId0 eqFVarId subst0 caseName eqDecl a b c s =
     (if isConstructorApp env s a \<and> isConstructorApp env s b then
        (case injectionCore env mvarId0 eqFVarId c s of
           error e s1 \<Rightarrow> error e s1
         | ok r s1 \<Rightarrow>
             (case r of
                InjectionResultCore_solved \<Rightarrow> ok None s1
              | InjectionResultCore_subgoal mvarId1 n \<Rightarrow>
                  ok (Some \<lparr>mvarId = mvarId1, subst = subst0, numNewEqs = n\<rparr>) s1))
      else
        (case whnf env a c s of
           error e s1 \<Rightarrow> error e s1
         | ok a' s1 \<Rightarrow>
             (case whnf env b c s1 of
                error e s2 \<Rightarrow> error e s2
              | ok b' s2 \<Rightarrow>
                  (case isTracingEnabledFor env [''Meta'', ''debug''] c s2 of
                     (enabled, s3) \<Rightarrow>
                       if \<not> enabled then
                         injection_lambda_2 env eqFVarId a' b' eqDecl mvarId0 subst0 a b
                           caseName [''Meta'', ''debug''] c s3
                       else
                         injection_lambda_2 env eqFVarId a' b' eqDecl mvarId0 subst0 a b
                           caseName [''Meta'', ''debug''] c
                           (addTrace env [''Meta'', ''debug''] (trace_reduced ''a: '' a a') c s3)))))"

definition unifyEq_x3f_lambda_1 ::
  "('g, 'sub, 'c, 's) oracles \<Rightarrow> fvar_id \<Rightarrow> 'g \<Rightarrow> 'sub \<Rightarrow> name option \<Rightarrow>
   ('g \<Rightarrow> expr \<Rightarrow> 'c \<Rightarrow> 's \<Rightarrow> (bool, 's) result) \<Rightarrow>
   'c \<Rightarrow> 's \<Rightarrow> (('g, 'sub) UnifyEqResult option, 's) result" where
  "unifyEq_x3f_lambda_1 env eqFVarId mvarId0 subst0 caseName acyclicM c s =
     (case getLocalDecl env eqFVarId c s of
        error e s1 \<Rightarrow> error e s1
      | ok eqDecl s1 \<Rightarrow>
          if isHEq (LocalDecl_type eqDecl) then
            (case heqToEq' env mvarId0 eqDecl c s1 of
               error e s2 \<Rightarrow> error e s2
             | ok mvarId1 s2 \<Rightarrow>
                 ok (Some \<lparr>mvarId = mvarId1, subst = subst0, numNewEqs = 1\<rparr>) s2)
          else if \<not> isAppOfArity (LocalDecl_type eqDecl) [''Eq''] 3 then
            throwError env (equality_expected (LocalDecl_type eqDecl)) c s1
          else
            (case instantiateMVars env (appArg_x21 (appFn_x21 (LocalDecl_type eqDecl))) c s1 of
               (a', s2) \<Rightarrow>
                 (case instantiateMVars env (appArg_x21 (LocalDecl_type eqDecl)) c s2 of
                    (b', s3) \<Rightarrow>
                      (case a' of
                         fvar aFvarId \<Rightarrow>
                           (case b' of
                              fvar bFvarId \<Rightarrow>
                                (case getLocalDecl env aFvarId c s3 of
                                   error e s4 \<Rightarrow> error e s4
                                 | ok aDecl s4 \<Rightarrow>
                                     (case getLocalDecl env bFvarId c s4 of
                                        error e s5 \<Rightarrow> error e s5
                                      | ok bDecl s5 \<Rightarrow>
                                          substEq env mvarId0 eqFVarId subst0 acyclicM eqDecl
                                            (appArg_x21 (appFn_x21 (LocalDecl_type eqDecl)))
                                            (appArg_x21 (LocalDecl_type eqDecl))
                                            (LocalDecl_index aDecl < LocalDecl_index bDecl) c s5))
                            | _ \<Rightarrow>
                                substEq env mvarId0 eqFVarId subst0 acyclicM eqDecl
                                  (appArg_x21 (appFn_x21 (LocalDecl_type eqDecl)))
                                  (appArg_x21 (LocalDecl_type eqDecl)) False c s3)
                       | _ \<Rightarrow>
                           (case b' of
                              fvar bFvarId \<Rightarrow>
                                substEq env mvarId0 eqFVarId subst0 acyclicM eqDecl
                                  (appArg_x21 (appFn_x21 (LocalDecl_type eqDecl)))
                                  (appArg_x21 (LocalDecl_type eqDecl)) True c s3
                            | _ \<Rightarrow>
                                (case isExprDefEq env a' b' c s3 of
                                   error e s4 \<Rightarrow> error e s4
                                 | ok d s4 \<Rightarrow>
                                     if d then
                                       (case clear env mvarId0 eqFVarId c s4 of
                                          error e s5 \<Rightarrow> error e s5
                                        | ok mvarId1 s5 \<Rightarrow>
                                            ok (Some \<lparr>mvarId = mvarId1, subst = subst0,
                                                      numNewEqs = 0\<rparr>) s5)
                                     else
                                       injection env mvarId0 eqFVarId subst0 caseName eqDecl
                                         a' b' c s4))))))"

definition unifyEq_x3f ::
  "('g, 'sub, 'c, 's) oracles \<Rightarrow> 'g \<Rightarrow> fvar_id \<Rightarrow> 'sub \<Rightarrow>
   ('g \<Rightarrow> expr \<Rightarrow> 'c \<Rightarrow> 's \<Rightarrow> (bool, 's) result) \<Rightarrow> name option \<Rightarrow>
   'c \<Rightarrow> 's \<Rightarrow> (('g, 'sub) UnifyEqResult option, 's) result" where
  "unifyEq_x3f env mvarId0 eqFVarId subst0 acyclicM caseName c s =
     withMVarContext env mvarId0
       (unifyEq_x3f_lambda_1 env eqFVarId mvarId0 subst0 caseName acyclicM) c s"

section \<open>A reference context manager and term oracle\<close>

text \<open>
  The context manager, the substitution primitive and the constructor-equality
  primitive live in other modules.  The definitions of this section follow the spec's
  description of them, over a local context that is the ordered list of its
  declarations; a goal is its local context.  The term oracle stays a parameter: a
  record of pure functions.
\<close>

type_synonym lctx = "localDecl list"
type_synonym fvarSubst = "(fvar_id \<times> expr) list"

record world =
  nextFVar :: nat
  traceEnabled :: bool
  traces :: "(name \<times> messageData) list"

record termOracle =
  t_isDefEq :: "expr \<Rightarrow> expr \<Rightarrow> bool"
  t_whnf :: "expr \<Rightarrow> expr"
  t_inferType :: "expr \<Rightarrow> expr"
  t_instantiate :: "expr \<Rightarrow> expr"
  t_isConstructorApp :: "expr \<Rightarrow> bool"

definition mkEqE :: "expr \<Rightarrow> expr \<Rightarrow> expr \<Rightarrow> expr" where
  "mkEqE \<alpha> a b = app (app (app (constE [''Eq''] []) \<alpha>) a) b"

definition mkHEqE :: "expr \<Rightarrow> expr \<Rightarrow> expr \<Rightarrow> expr \<Rightarrow> expr" where
  "mkHEqE \<alpha> a \<beta> b = app (app (app (app (constE [''HEq''] []) \<alpha>) a) \<beta>) b"

fun matchEq :: "expr \<Rightarrow> (expr \<times> expr \<times> expr) option" where
  "matchEq (app (app (app (constE n ls) \<alpha>) a) b) =
     (if n = [''Eq''] then Some (\<alpha>, a, b) else None)"
| "matchEq e = None"

fun matchHEq :: "expr \<Rightarrow> (nat list \<times> expr \<times> expr \<times> expr \<times> expr) option" where
  "matchHEq (app (app (app (app (constE n ls) \<alpha>) a) \<beta>) b) =
     (if n = [''HEq''] then Some (ls, \<alpha>, a, \<beta>, b) else None)"
| "matchHEq e = None"

fun matchEqOfHEq :: "expr \<Rightarrow> (nat list \<times> expr \<times> expr \<times> expr) option" where
  "matchEqOfHEq (app (app (app (app (constE n ls) \<alpha>) a) b) h) =
     (if n = [''eq_of_heq''] then Some (ls, \<alpha>, a, b) else None)"
| "matchEqOfHEq e = None"

fun getAppFn :: "expr \<Rightarrow> expr" where
  "getAppFn (app f a) = getAppFn f"
| "getAppFn e = e"

fun getAppArgs :: "expr \<Rightarrow> expr list" where
  "getAppArgs (app f a) = getAppArgs f @ [a]"
| "getAppArgs e = []"

primrec occursFVar :: "fvar_id \<Rightarrow> expr \<Rightarrow> bool" where
  "occursFVar x (bvar i) = False"
| "occursFVar x (fvar y) = (x = y)"
| "occursFVar x (mvar m) = False"
| "occursFVar x (sortE u) = False"
| "occursFVar x (constE n ls) = False"
| "occursFVar x (app f a) = (occursFVar x f \<or> occursFVar x a)"
| "occursFVar x (lam t b) = (occursFVar x t \<or> occursFVar x b)"
| "occursFVar x (forallE t b) = (occursFVar x t \<or> occursFVar x b)"
| "occursFVar x (letE t v b) = (occursFVar x t \<or> occursFVar x v \<or> occursFVar x b)"
| "occursFVar x (lit n) = False"
| "occursFVar x (mdata e) = occursFVar x e"
| "occursFVar x (proj n i e) = occursFVar x e"

primrec replaceFVar :: "fvar_id \<Rightarrow> expr \<Rightarrow> expr \<Rightarrow> expr" where
  "replaceFVar x v (bvar i) = bvar i"
| "replaceFVar x v (fvar y) = (if x = y then v else fvar y)"
| "replaceFVar x v (mvar m) = mvar m"
| "replaceFVar x v (sortE u) = sortE u"
| "replaceFVar x v (constE n ls) = constE n ls"
| "replaceFVar x v (app f a) = app (replaceFVar x v f) (replaceFVar x v a)"
| "replaceFVar x v (lam t b) = lam (replaceFVar x v t) (replaceFVar x v b)"
| "replaceFVar x v (forallE t b) = forallE (replaceFVar x v t) (replaceFVar x v b)"
| "replaceFVar x v (letE t w b) =
     letE (replaceFVar x v t) (replaceFVar x v w) (replaceFVar x v b)"
| "replaceFVar x v (lit n) = lit n"
| "replaceFVar x v (mdata e) = mdata (replaceFVar x v e)"
| "replaceFVar x v (proj n i e) = proj n i (replaceFVar x v e)"

definition lookupDecl :: "lctx \<Rightarrow> fvar_id \<Rightarrow> localDecl option" where
  "lookupDecl g x = find (\<lambda>d. LocalDecl_fvarId d = x) g"

definition fvarIds :: "lctx \<Rightarrow> fvar_id list" where
  "fvarIds g = map LocalDecl_fvarId g"

definition eraseDecl :: "fvar_id \<Rightarrow> lctx \<Rightarrow> lctx" where
  "eraseDecl x g = filter (\<lambda>d. LocalDecl_fvarId d \<noteq> x) g"

text \<open>A new declaration gets an identifier above every identifier in use and an index
  above every index of the context ("declaration index reflects introduction order").\<close>

definition freshFVar :: "lctx \<Rightarrow> world \<Rightarrow> fvar_id" where
  "freshFVar g s = fold max (map (\<lambda>d. Suc (LocalDecl_fvarId d)) g) (nextFVar s)"

definition nextIndex :: "lctx \<Rightarrow> nat" where
  "nextIndex g = fold max (map (\<lambda>d. Suc (LocalDecl_index d)) g) 0"

definition addDecl :: "lctx \<Rightarrow> name \<Rightarrow> expr \<Rightarrow> world \<Rightarrow> lctx \<times> world" where
  "addDecl g n ty s =
     (g @ [\<lparr>LocalDecl_fvarId = freshFVar g s, LocalDecl_userName = n,
            LocalDecl_type = ty, LocalDecl_index = nextIndex g\<rparr>],
      s\<lparr>nextFVar := Suc (freshFVar g s)\<rparr>)"

text \<open>Modelled from the spec: \<open>getLocalDecl(id) -> {name, type, index}\<close>, missing from
  this module; an undeclared identifier is an oracle failure.\<close>

definition ref_getLocalDecl :: "fvar_id \<Rightarrow> lctx \<Rightarrow> world \<Rightarrow> (localDecl, world) result" where
  "ref_getLocalDecl x c s =
     (case lookupDecl c x of Some d \<Rightarrow> ok d s | None \<Rightarrow> error (Exception_internal x) s)"

text \<open>Modelled from the spec: \<open>assertHypothesis(name, type, proof) -> id\<close>, missing from
  this module; the new hypothesis joins the context under the given user-facing name.\<close>

definition ref_assert ::
  "lctx \<Rightarrow> name \<Rightarrow> expr \<Rightarrow> expr \<Rightarrow> lctx \<Rightarrow> world \<Rightarrow> (lctx, world) result" where
  "ref_assert g n ty val c s = (case addDecl g n ty s of (g', s') \<Rightarrow> ok g' s')"

text \<open>
  Modelled from the spec: \<open>clearHypothesis(id) -> ()\<close>, missing from this module.  A
  context mutation "may fail", and "a cleared variable-id must never be referenced by
  later operations (enforced by the context accessor)": clearing an identifier that is
  not declared, or that the type of a declaration still mentions, is an oracle failure.
\<close>

definition ref_clear :: "lctx \<Rightarrow> fvar_id \<Rightarrow> lctx \<Rightarrow> world \<Rightarrow> (lctx, world) result" where
  "ref_clear g x c s =
     (if x \<in> set (fvarIds g) \<and> (\<forall>d \<in> set g. \<not> occursFVar x (LocalDecl_type d))
      then ok (eraseDecl x g) s else error (Exception_internal x) s)"

text \<open>
  Modelled from the spec: \<open>substituteVariable(id, value) -> Result\<close> behind
  \<open>substCore\<close>, missing from this module.  The direction flag chooses the side to
  eliminate: the left-hand side when it is off, the right-hand side when it is on.  The
  attempt fails when that side is not a plain variable or when the variable occurs in the
  value replacing it (so it fails on \<open>x = x\<close>); on success the variable is replaced in
  every declaration and removed, and the hypothesis is cleared when \<open>clearH\<close> is set.
\<close>

definition ref_substCore ::
  "termOracle \<Rightarrow> lctx \<Rightarrow> fvar_id \<Rightarrow> bool \<Rightarrow> fvarSubst \<Rightarrow> bool \<Rightarrow> bool \<Rightarrow> lctx \<Rightarrow> world \<Rightarrow>
   (fvarSubst \<times> lctx, world) result" where
  "ref_substCore T g h symm sub clearH tryToSkip c s =
     (case lookupDecl g h of
        None \<Rightarrow> error (Exception_internal h) s
      | Some d \<Rightarrow>
          (case matchEq (LocalDecl_type d) of
             None \<Rightarrow> error (Exception_internal h) s
           | Some (\<alpha>, lhs, rhs) \<Rightarrow>
               (case t_instantiate T (if symm then rhs else lhs) of
                  fvar x \<Rightarrow>
                    if occursFVar x (t_instantiate T (if symm then lhs else rhs)) then
                      error (Exception_internal x) s
                    else
                      ok ((x, t_instantiate T (if symm then lhs else rhs)) # sub,
                          map (\<lambda>d'. d'\<lparr>LocalDecl_type :=
                                         replaceFVar x (t_instantiate T (if symm then lhs else rhs))
                                           (LocalDecl_type d')\<rparr>)
                            (filter (\<lambda>d'. LocalDecl_fvarId d' \<noteq> x \<and>
                                          (clearH \<longrightarrow> LocalDecl_fvarId d' \<noteq> h)) g)) s
                | _ \<Rightarrow> error (Exception_internal h) s)))"

text \<open>
  Modelled from the spec: the "standard heterogeneous-to-homogeneous congruence
  conversion" behind \<open>mkEqOfHEq\<close>, missing from this module.  Its precondition is that
  the hypothesis is a heterogeneous equality whose two types are definitionally equal;
  the proof it builds is \<open>eq_of_heq\<close> applied to the type, the two sides and the
  hypothesis, at the universe levels of the hypothesis.
\<close>

definition ref_mkEqOfHEq :: "termOracle \<Rightarrow> expr \<Rightarrow> lctx \<Rightarrow> world \<Rightarrow> (expr, world) result" where
  "ref_mkEqOfHEq T h c s =
     (case h of
        fvar x \<Rightarrow>
          (case lookupDecl c x of
             None \<Rightarrow> error (Exception_internal x) s
           | Some d \<Rightarrow>
               (case matchHEq (LocalDecl_type d) of
                  None \<Rightarrow> error (Exception_internal x) s
                | Some (ls, \<alpha>, a, \<beta>, b) \<Rightarrow>
                    if t_isDefEq T \<alpha> \<beta> then
                      ok (app (app (app (app (constE [''eq_of_heq''] ls) \<alpha>) a) b) h) s
                    else error (Exception_internal x) s))
      | _ \<Rightarrow> error (Exception_internal 0) s)"

text \<open>
  Modelled from the spec: \<open>inferType(e) -> \<tau>\<close>, missing from this module.  The type of
  the conversion proof \<open>eq_of_heq \<alpha> a b h\<close> is the homogeneous equality \<open>a = b\<close> at
  type \<open>\<alpha>\<close>; every other expression is typed by the term oracle.
\<close>

definition ref_inferType :: "termOracle \<Rightarrow> expr \<Rightarrow> lctx \<Rightarrow> world \<Rightarrow> (expr, world) result" where
  "ref_inferType T e c s =
     (case matchEqOfHEq e of
        Some (ls, \<alpha>, a, b) \<Rightarrow> ok (app (app (app (constE [''Eq''] ls) \<alpha>) a) b) s
      | None \<Rightarrow> ok (t_inferType T e) s)"

text \<open>
  Modelled from the spec: \<open>whnf(e) -> e'\<close>, missing from this module: "reduction
  exposing a term's outermost head/constructor without reducing subterms".  An equality
  proposition has its head exposed already; every other expression is reduced by the
  term oracle.
\<close>

definition ref_whnf :: "termOracle \<Rightarrow> expr \<Rightarrow> lctx \<Rightarrow> world \<Rightarrow> (expr, world) result" where
  "ref_whnf T e c s = ok (if isAppOfArity e [''Eq''] 3 then e else t_whnf T e) s"

fun assertFields :: "termOracle \<Rightarrow> name \<Rightarrow> (expr \<times> expr) list \<Rightarrow> lctx \<Rightarrow> world \<Rightarrow> lctx \<times> world" where
  "assertFields T n [] g s = (g, s)"
| "assertFields T n ((a, b) # fs) g s =
     (case addDecl g n (mkEqE (t_inferType T a) a b) s of
        (g', s') \<Rightarrow> assertFields T n fs g' s')"

text \<open>
  Modelled from the spec: \<open>decomposeSameConstructorEquality(lhsApp, rhsApp) ->
  [fieldEquality]\<close> behind \<open>injectionCore\<close>, missing from this module: "one
  field-equality hypothesis per constructor argument", the decomposed hypothesis
  cleared.  Distinct constructors close the goal (\<open>solved\<close>).
\<close>

definition ref_injectionCore ::
  "termOracle \<Rightarrow> lctx \<Rightarrow> fvar_id \<Rightarrow> lctx \<Rightarrow> world \<Rightarrow> (lctx injectionResultCore, world) result" where
  "ref_injectionCore T g h c s =
     (case lookupDecl g h of
        None \<Rightarrow> error (Exception_internal h) s
      | Some d \<Rightarrow>
          (case matchEq (LocalDecl_type d) of
             None \<Rightarrow> error (Exception_internal h) s
           | Some (\<alpha>, lhs, rhs) \<Rightarrow>
               if \<not> (t_isConstructorApp T (t_instantiate T lhs) \<and>
                      t_isConstructorApp T (t_instantiate T rhs)) then
                 error (Exception_internal h) s
               else if getAppFn (t_instantiate T lhs) \<noteq> getAppFn (t_instantiate T rhs) then
                 ok InjectionResultCore_solved s
               else
                 (case assertFields T (LocalDecl_userName d)
                         (zip (getAppArgs (t_instantiate T lhs))
                              (getAppArgs (t_instantiate T rhs))) g s of
                    (g', s') \<Rightarrow>
                      ok (InjectionResultCore_subgoal (eraseDecl h g')
                            (length (getAppArgs (t_instantiate T lhs)))) s')))"

definition refEnv :: "termOracle \<Rightarrow> (lctx, fvarSubst, lctx, world) oracles" where
  "refEnv T =
     \<lparr>mvarContext = (\<lambda>g c s. g),
      getLocalDecl = ref_getLocalDecl,
      instantiateMVars = (\<lambda>e c s. (t_instantiate T e, s)),
      isExprDefEq = (\<lambda>a b c s. ok (t_isDefEq T a b) s),
      whnf = ref_whnf T,
      inferType = ref_inferType T,
      mkEqOfHEq = ref_mkEqOfHEq T,
      mkEq = (\<lambda>a b c s. ok (mkEqE (t_inferType T a) a b) s),
      assert = ref_assert,
      clear = ref_clear,
      substCore = ref_substCore T,
      injectionCore = ref_injectionCore T,
      isConstructorApp = (\<lambda>s e. t_isConstructorApp T e),
      isTracingEnabledFor = (\<lambda>cls c s. (traceEnabled s, s)),
      addTrace = (\<lambda>cls m c s. s\<lparr>traces := traces s @ [(cls, m)]\<rparr>),
      addMessageContextFull = (\<lambda>m c s. (m, s)),
      ctxRef = (\<lambda>c. 0)\<rparr>"

section \<open>Vocabulary of the statements\<close>

text \<open>The tag test of the dispatcher (object tag 1) and the identifier it reads.\<close>

definition isFVar :: "expr \<Rightarrow> bool" where
  "isFVar e = (case e of fvar x \<Rightarrow> True | _ \<Rightarrow> False)"

definition fvarId_x21 :: "expr \<Rightarrow> fvar_id" where
  "fvarId_x21 e = (case e of fvar x \<Rightarrow> x | _ \<Rightarrow> 0)"


text \<open>The direction flag with which the dispatcher enters \<open>substEq\<close> when at least one
  instantiated side is a local variable, and the world it enters it with.\<close>

definition substDirection ::
  "('g, 'sub, 'c, 's) oracles \<Rightarrow> expr \<Rightarrow> expr \<Rightarrow> 'c \<Rightarrow> 's \<Rightarrow> (bool, 's) result" where
  "substDirection env a' b' c s =
     (if isFVar a' \<and> isFVar b' then
        (case getLocalDecl env (fvarId_x21 a') c s of
           error e s1 \<Rightarrow> error e s1
         | ok aDecl s1 \<Rightarrow>
             (case getLocalDecl env (fvarId_x21 b') c s1 of
                error e s2 \<Rightarrow> error e s2
              | ok bDecl s2 \<Rightarrow> ok (LocalDecl_index aDecl < LocalDecl_index bDecl) s2))
      else ok (isFVar b') s)"

section \<open>Concrete inputs\<close>

text \<open>
  A small term oracle: definitional equality is syntactic equality, \<open>id e\<close> reduces to
  \<open>e\<close>, \<open>C\<close> and \<open>D\<close> are the constructors, nothing is a metavariable, and every
  expression the oracle is asked to type has the type \<open>T\<close>.
\<close>

definition tyT :: expr where
  "tyT = constE [''T''] []"

fun whnf_ex :: "expr \<Rightarrow> expr" where
  "whnf_ex (app (constE n ls) e) = (if n = [''id''] then e else app (constE n ls) e)"
| "whnf_ex e = e"

definition isCtor_ex :: "expr \<Rightarrow> bool" where
  "isCtor_ex e = (case getAppFn e of constE n ls \<Rightarrow> n = [''C''] \<or> n = [''D''] | _ \<Rightarrow> False)"

definition infer_ex :: "expr \<Rightarrow> expr" where
  "infer_ex e = tyT"

definition T_ex :: termOracle where
  "T_ex = \<lparr>t_isDefEq = (\<lambda>a b. a = b), t_whnf = whnf_ex, t_inferType = infer_ex,
           t_instantiate = (\<lambda>e. e), t_isConstructorApp = isCtor_ex\<rparr>"

definition s_ex :: world where
  "s_ex = \<lparr>nextFVar = 0, traceEnabled = False, traces = []\<rparr>"

definition acyclic_no :: "lctx \<Rightarrow> expr \<Rightarrow> lctx \<Rightarrow> world \<Rightarrow> (bool, world) result" where
  "acyclic_no g e c s = ok False s"

definition acyclic_yes :: "lctx \<Rightarrow> expr \<Rightarrow> lctx \<Rightarrow> world \<Rightarrow> (bool, world) result" where
  "acyclic_yes g e c s = ok True s"

definition decl :: "nat \<Rightarrow> string \<Rightarrow> expr \<Rightarrow> nat \<Rightarrow> localDecl" where
  "decl i n ty k =
     \<lparr>LocalDecl_fvarId = i, LocalDecl_userName = [n], LocalDecl_type = ty, LocalDecl_index = k\<rparr>"

text \<open>\<open>h : True\<close>\<close>

definition g_true :: lctx where
  "g_true = [decl 0 ''h'' (constE [''True''] []) 0]"

text \<open>\<open>x : T, h : HEq x x\<close>\<close>

definition g_heq :: lctx where
  "g_heq = [decl 0 ''x'' tyT 0, decl 1 ''h'' (mkHEqE tyT (fvar 0) tyT (fvar 0)) 1]"

text \<open>\<open>x y : T, h : id x = id y\<close>\<close>

definition g_id :: lctx where
  "g_id = [decl 0 ''x'' tyT 0, decl 1 ''y'' tyT 1,
           decl 2 ''h'' (mkEqE tyT (app (constE [''id''] []) (fvar 0))
                                   (app (constE [''id''] []) (fvar 1))) 2]"

text \<open>\<open>x : T, h : x = C x\<close>\<close>

definition g_occ :: lctx where
  "g_occ = [decl 0 ''x'' tyT 0,
            decl 1 ''h'' (mkEqE tyT (fvar 0) (app (constE [''C''] []) (fvar 0))) 1]"

text \<open>\<open>x y : T, h : x = y\<close>\<close>

definition g_xy :: lctx where
  "g_xy = [decl 0 ''x'' tyT 0, decl 1 ''y'' tyT 1, decl 2 ''h'' (mkEqE tyT (fvar 0) (fvar 1)) 2]"




text \<open>\<open>x : T, h : C x = D x\<close>\<close>

definition g_cd :: lctx where
  "g_cd = [decl 0 ''x'' tyT 0,
           decl 1 ''h'' (mkEqE tyT (app (constE [''C''] []) (fvar 0))
                                   (app (constE [''D''] []) (fvar 0))) 1]"



text \<open>\<open>a b1 b2 : T, h : C a b1 = C a b2\<close>\<close>

definition g_ctor :: lctx where
  "g_ctor = [decl 0 ''a'' tyT 0, decl 1 ''b1'' tyT 1, decl 2 ''b2'' tyT 2,
     decl 3 ''h'' (mkEqE tyT (app (app (constE [''C''] []) (fvar 0)) (fvar 1))
                             (app (app (constE [''C''] []) (fvar 0)) (fvar 2))) 3]"

text \<open>\<open>b1 b2 : T, h : C b1 = C b2\<close>\<close>

definition g_ctor1 :: lctx where
  "g_ctor1 = [decl 0 ''b1'' tyT 0, decl 1 ''b2'' tyT 1,
     decl 2 ''h'' (mkEqE tyT (app (constE [''C''] []) (fvar 0))
                             (app (constE [''C''] []) (fvar 1))) 2]"

section \<open>Unfolding rules and basic facts\<close>

lemmas eval_defs = unifyEq_x3f_def withMVarContext_def unifyEq_x3f_lambda_1_def substEq_def
  injection_def injection_lambda_1_def injection_lambda_2_def heqToEq'_def observing_x3f_def
  throwError_def isHEq_def failed_to_solve_def failed_to_solve_at_case_def equality_expected_def
  trace_reduced_def
  refEnv_def ref_getLocalDecl_def ref_assert_def ref_clear_def ref_substCore_def
  ref_mkEqOfHEq_def ref_inferType_def ref_whnf_def ref_injectionCore_def lookupDecl_def fvarIds_def eraseDecl_def addDecl_def
  freshFVar_def nextIndex_def mkEqE_def mkHEqE_def
  T_ex_def s_ex_def decl_def tyT_def acyclic_no_def isCtor_ex_def infer_ex_def
  eval_nat_numeral

lemma case_fvar_if:
  "(case e of fvar x \<Rightarrow> F x | _ \<Rightarrow> G) = (if isFVar e then F (fvarId_x21 e) else G)"
  by (cases e) (simp_all add: isFVar_def fvarId_x21_def)

lemmas lambda_1_if = unifyEq_x3f_lambda_1_def [unfolded case_fvar_if]

lemma isFVar_fvar [simp]: "isFVar (fvar x)" "fvarId_x21 (fvar x) = x"
  by (simp_all add: isFVar_def fvarId_x21_def)


lemma isAppOfArity_0: "isAppOfArity e n 0 \<longleftrightarrow> (\<exists>ls. e = constE n ls)"
  by (cases e) auto

lemma isAppOfArity_Suc:
  "isAppOfArity e n (Suc k) \<longleftrightarrow> (\<exists>f a. e = app f a \<and> isAppOfArity f n k)"
  by (cases e) auto

lemma isAppOfArity_3D:
  "isAppOfArity e n 3 \<Longrightarrow> \<exists>ls \<alpha> a b. e = app (app (app (constE n ls) \<alpha>) a) b"
  by (auto simp: eval_nat_numeral isAppOfArity_Suc isAppOfArity_0)

subsection \<open>Where \<open>none\<close> can come from\<close>

lemma substEq_none_iff:
  "substEq env g h sub acyclicM d a b symm c s = ok None s' \<longleftrightarrow>
     (\<exists>e sf s2. substCore env g h symm sub True False c s = error e sf \<and>
                isExprDefEq env a b c s = ok False s2 \<and>
                acyclicM g (fvar h) c s2 = ok True s')"
  by (auto simp: substEq_def throwError_def observing_x3f_def
      split: prod.splits option.splits result.splits if_splits)

lemma injection_lambda_1_not_none:
  "injection_lambda_1 env h a' b' d g sub a b cn c s \<noteq> ok None s'"
  by (auto simp: injection_lambda_1_def throwError_def
      split: prod.splits option.splits result.splits if_splits)

lemma injection_none_iff:
  "injection env g h sub cn d a b c s = ok None s' \<longleftrightarrow>
     (isConstructorApp env s a \<and> isConstructorApp env s b \<and>
      injectionCore env g h c s = ok InjectionResultCore_solved s')"
  by (auto simp: injection_def injection_lambda_2_def injection_lambda_1_not_none
      split: prod.splits option.splits result.splits if_splits injectionResultCore.splits)

subsection \<open>The routes of the dispatcher\<close>


lemma lambda_1_route:
  assumes "getLocalDecl env h c s = ok d s1"
      and "LocalDecl_type d = app (app (app (constE [''Eq''] ls) \<alpha>) a) b"
      and "instantiateMVars env a c s1 = (a', s2)"
      and "instantiateMVars env b c s2 = (b', s3)"
  shows "unifyEq_x3f_lambda_1 env h g sub cn acyclicM c s =
     (if isFVar a' \<and> isFVar b' then
        (case getLocalDecl env (fvarId_x21 a') c s3 of
           error e s4 \<Rightarrow> error e s4
         | ok aDecl s4 \<Rightarrow>
             (case getLocalDecl env (fvarId_x21 b') c s4 of
                error e s5 \<Rightarrow> error e s5
              | ok bDecl s5 \<Rightarrow>
                  substEq env g h sub acyclicM d a b
                    (LocalDecl_index aDecl < LocalDecl_index bDecl) c s5))
      else if isFVar a' then substEq env g h sub acyclicM d a b False c s3
      else if isFVar b' then substEq env g h sub acyclicM d a b True c s3
      else
        (case isExprDefEq env a' b' c s3 of
           error e s4 \<Rightarrow> error e s4
         | ok dq s4 \<Rightarrow>
             if dq then
               (case clear env g h c s4 of
                  error e s5 \<Rightarrow> error e s5
                | ok g1 s5 \<Rightarrow> ok (Some \<lparr>mvarId = g1, subst = sub, numNewEqs = 0\<rparr>) s5)
             else injection env g h sub cn d a' b' c s4))"
  using assms
  by (simp add: lambda_1_if isHEq_def eval_nat_numeral split: result.splits)

lemma unifyEq_x3f_route:
  assumes "getLocalDecl env h (mvarContext env g c s) s = ok d s1"
      and "LocalDecl_type d = app (app (app (constE [''Eq''] ls) \<alpha>) a) b"
      and "instantiateMVars env a (mvarContext env g c s) s1 = (a', s2)"
      and "instantiateMVars env b (mvarContext env g c s) s2 = (b', s3)"
  shows "unifyEq_x3f env g h sub acyclicM cn c s =
     (if isFVar a' \<and> isFVar b' then
        (case getLocalDecl env (fvarId_x21 a') (mvarContext env g c s) s3 of
           error e s4 \<Rightarrow> error e s4
         | ok aDecl s4 \<Rightarrow>
             (case getLocalDecl env (fvarId_x21 b') (mvarContext env g c s) s4 of
                error e s5 \<Rightarrow> error e s5
              | ok bDecl s5 \<Rightarrow>
                  substEq env g h sub acyclicM d a b
                    (LocalDecl_index aDecl < LocalDecl_index bDecl) (mvarContext env g c s) s5))
      else if isFVar a' then substEq env g h sub acyclicM d a b False (mvarContext env g c s) s3
      else if isFVar b' then substEq env g h sub acyclicM d a b True (mvarContext env g c s) s3
      else
        (case isExprDefEq env a' b' (mvarContext env g c s) s3 of
           error e s4 \<Rightarrow> error e s4
         | ok dq s4 \<Rightarrow>
             if dq then
               (case clear env g h (mvarContext env g c s) s4 of
                  error e s5 \<Rightarrow> error e s5
                | ok g1 s5 \<Rightarrow> ok (Some \<lparr>mvarId = g1, subst = sub, numNewEqs = 0\<rparr>) s5)
             else injection env g h sub cn d a' b' (mvarContext env g c s) s4))"
  unfolding unifyEq_x3f_def withMVarContext_def
  by (rule lambda_1_route [OF assms])

lemma unifyEq_x3f_substEq_route:
  assumes "getLocalDecl env h (mvarContext env g c s) s = ok d s1"
      and "LocalDecl_type d = app (app (app (constE [''Eq''] ls) \<alpha>) a) b"
      and "instantiateMVars env a (mvarContext env g c s) s1 = (a', s2)"
      and "instantiateMVars env b (mvarContext env g c s) s2 = (b', s3)"
      and "isFVar a' \<or> isFVar b'"
      and "substDirection env a' b' (mvarContext env g c s) s3 = ok symm s4"
  shows "unifyEq_x3f env g h sub acyclicM cn c s =
           substEq env g h sub acyclicM d a b symm (mvarContext env g c s) s4"
  using assms(5,6)
  by (auto simp: unifyEq_x3f_route [OF assms(1-4)] substDirection_def
        split: result.splits if_splits)

lemma unifyEq_x3f_none_shape:
  assumes "unifyEq_x3f env g h sub acyclicM cn c s = ok None s'"
  shows "\<exists>d s1 ls \<alpha> a b.
           getLocalDecl env h (mvarContext env g c s) s = ok d s1 \<and>
           LocalDecl_type d = app (app (app (constE [''Eq''] ls) \<alpha>) a) b"
proof -
  from assms obtain d s1 where
      get: "getLocalDecl env h (mvarContext env g c s) s = ok d s1"
    and eq: "isAppOfArity (LocalDecl_type d) [''Eq''] 3"
    unfolding unifyEq_x3f_def withMVarContext_def lambda_1_if
    by (auto simp: throwError_def split: result.splits if_splits prod.splits)
  from isAppOfArity_3D [OF eq] get show ?thesis by blast
qed

lemma unifyEq_x3f_none_route:
  assumes "getLocalDecl env h (mvarContext env g c s) s = ok d s1"
      and "LocalDecl_type d = app (app (app (constE [''Eq''] ls) \<alpha>) a) b"
      and "instantiateMVars env a (mvarContext env g c s) s1 = (a', s2)"
      and "instantiateMVars env b (mvarContext env g c s) s2 = (b', s3)"
  shows "unifyEq_x3f env g h sub acyclicM cn c s = ok None s' \<longleftrightarrow>
     ((isFVar a' \<or> isFVar b') \<and>
        (\<exists>symm s4 e sf s5.
           substDirection env a' b' (mvarContext env g c s) s3 = ok symm s4 \<and>
           substCore env g h symm sub True False (mvarContext env g c s) s4 = error e sf \<and>
           isExprDefEq env a b (mvarContext env g c s) s4 = ok False s5 \<and>
           acyclicM g (fvar h) (mvarContext env g c s) s5 = ok True s')) \<or>
     (\<not> isFVar a' \<and> \<not> isFVar b' \<and>
        (\<exists>s4. isExprDefEq env a' b' (mvarContext env g c s) s3 = ok False s4 \<and>
              isConstructorApp env s4 a' \<and> isConstructorApp env s4 b' \<and>
              injectionCore env g h (mvarContext env g c s) s4 =
                ok InjectionResultCore_solved s'))"
proof (cases "isFVar a' \<or> isFVar b'")
  case True
  show ?thesis
  proof (cases "substDirection env a' b' (mvarContext env g c s) s3")
    case (ok symm s4)
    have "unifyEq_x3f env g h sub acyclicM cn c s =
            substEq env g h sub acyclicM d a b symm (mvarContext env g c s) s4"
      by (rule unifyEq_x3f_substEq_route [OF assms True ok])
    with True ok show ?thesis by (auto simp: substEq_none_iff)
  next
    case (error e s4)
    then have "unifyEq_x3f env g h sub acyclicM cn c s = error e s4"
      using True
      by (auto simp: unifyEq_x3f_route [OF assms] substDirection_def
            split: result.splits if_splits)
    with True error show ?thesis by auto
  qed
next
  case False
  then show ?thesis
    by (auto simp: unifyEq_x3f_route [OF assms] injection_none_iff split: result.splits)
qed

subsection \<open>The reference context manager\<close>

lemma lookupDecl_SomeD:
  "lookupDecl g x = Some d \<Longrightarrow> d \<in> set g \<and> LocalDecl_fvarId d = x"
  by (auto simp: lookupDecl_def find_Some_iff)

lemma lookupDecl_mem: "lookupDecl g x = Some d \<Longrightarrow> x \<in> set (fvarIds g)"
  by (auto simp: fvarIds_def dest: lookupDecl_SomeD)








lemma replaceFVar_removes:
  "\<not> occursFVar x v \<Longrightarrow> \<not> occursFVar x (replaceFVar x v e)"
  by (induction e) auto

lemma fvarIds_subst_ctx:
  "set (fvarIds (map (\<lambda>d'. d'\<lparr>LocalDecl_type := f d'\<rparr>)
          (filter (\<lambda>d'. LocalDecl_fvarId d' \<noteq> x \<and> LocalDecl_fvarId d' \<noteq> h) g))) =
   set (fvarIds g) - {x, h}"
  by (induction g) (auto simp: fvarIds_def)

lemma types_subst_ctx:
  "\<not> occursFVar x v \<Longrightarrow>
   \<forall>d' \<in> set (map (\<lambda>d'. d'\<lparr>LocalDecl_type := replaceFVar x v (LocalDecl_type d')\<rparr>) xs).
     \<not> occursFVar x (LocalDecl_type d')"
  by (simp add: replaceFVar_removes)

lemma refEnv_sel [simp]:
  "mvarContext (refEnv T) g c s = g"
  "getLocalDecl (refEnv T) = ref_getLocalDecl"
  "instantiateMVars (refEnv T) e c s = (t_instantiate T e, s)"
  "isExprDefEq (refEnv T) a b c s = ok (t_isDefEq T a b) s"
  "whnf (refEnv T) = ref_whnf T"
  "inferType (refEnv T) = ref_inferType T"
  "mkEqOfHEq (refEnv T) = ref_mkEqOfHEq T"
  "mkEq (refEnv T) a b c s = ok (mkEqE (t_inferType T a) a b) s"
  "assert (refEnv T) = ref_assert"
  "clear (refEnv T) = ref_clear"
  "substCore (refEnv T) = ref_substCore T"
  "injectionCore (refEnv T) = ref_injectionCore T"
  "isConstructorApp (refEnv T) s e = t_isConstructorApp T e"
  "isTracingEnabledFor (refEnv T) cls c s = (traceEnabled s, s)"
  "addTrace (refEnv T) cls m c s = s\<lparr>traces := traces s @ [(cls, m)]\<rparr>"
  "addMessageContextFull (refEnv T) m c s = (m, s)"
  "ctxRef (refEnv T) c = 0"
  by (simp_all add: refEnv_def)

lemma ref_getLocalDecl_Some: "lookupDecl g x = Some d \<Longrightarrow> ref_getLocalDecl x g s = ok d s"
  by (simp add: ref_getLocalDecl_def)



section \<open>The claims\<close>

subsection \<open>C1: the terminal outcome\<close>

text \<open>
  C1, as stated, fails: "there is no reachable non-error path on which the entry point
  returns without such a result".  On \<open>h : C x = D x\<close> the constructor-equality primitive
  reports the goal solved, and on \<open>h : x = C x\<close> the caller's \<open>acyclic\<close> check answers
  true: both times \<open>unifyEq?\<close> returns \<open>none\<close>, without an error and without a
  \<open>UnifyEqResult\<close>.
\<close>

theorem unifyEq_none_counterexample:
  "unifyEq_x3f (refEnv T_ex) g_cd 1 [] acyclic_no None g_cd s_ex = ok None s_ex \<and>
   unifyEq_x3f (refEnv T_ex) g_occ 1 [] acyclic_yes None g_occ s_ex = ok None s_ex"
  by (simp add: eval_defs acyclic_yes_def g_cd_def g_occ_def)

text \<open>
  C1, amended: an invocation that does not end in an error returns an optional
  \<open>UnifyEqResult\<close>, and it returns \<open>none\<close> exactly on two paths.  The hypothesis is a
  homogeneous equality \<open>a = b\<close>, and, with \<open>a'\<close> and \<open>b'\<close> the two sides after the
  assigned metavariables are instantiated, either

    \<^item> at least one of \<open>a'\<close>, \<open>b'\<close> is a local variable, the substitution attempted
      with the direction flag of the dispatcher failed, \<open>a\<close> and \<open>b\<close> are not
      definitionally equal, and the caller's \<open>acyclic\<close> check answered true; or

    \<^item> neither \<open>a'\<close> nor \<open>b'\<close> is a local variable, they are not definitionally
      equal, both are constructor applications, and \<open>injectionCore\<close> reported the goal
      solved.

  Every other invocation ends in an error or returns \<open>some\<close> result.
\<close>

theorem unifyEq_none_iff_solved:
  "unifyEq_x3f env g h sub acyclicM cn c s = ok None s' \<longleftrightarrow>
     (\<exists>d s1 ls \<alpha> a b a' s2 b' s3.
        getLocalDecl env h (mvarContext env g c s) s = ok d s1 \<and>
        LocalDecl_type d = app (app (app (constE [''Eq''] ls) \<alpha>) a) b \<and>
        instantiateMVars env a (mvarContext env g c s) s1 = (a', s2) \<and>
        instantiateMVars env b (mvarContext env g c s) s2 = (b', s3) \<and>
        (((isFVar a' \<or> isFVar b') \<and>
            (\<exists>symm s4 e sf s5.
               substDirection env a' b' (mvarContext env g c s) s3 = ok symm s4 \<and>
               substCore env g h symm sub True False (mvarContext env g c s) s4 = error e sf \<and>
               isExprDefEq env a b (mvarContext env g c s) s4 = ok False s5 \<and>
               acyclicM g (fvar h) (mvarContext env g c s) s5 = ok True s')) \<or>
         (\<not> isFVar a' \<and> \<not> isFVar b' \<and>
            (\<exists>s4. isExprDefEq env a' b' (mvarContext env g c s) s3 = ok False s4 \<and>
                  isConstructorApp env s4 a' \<and> isConstructorApp env s4 b' \<and>
                  injectionCore env g h (mvarContext env g c s) s4 =
                    ok InjectionResultCore_solved s'))))"
  (is "?L \<longleftrightarrow> ?R")
proof
  assume l: ?L
  from unifyEq_x3f_none_shape [OF l] obtain d s1 ls \<alpha> a b where
      get: "getLocalDecl env h (mvarContext env g c s) s = ok d s1"
    and ty: "LocalDecl_type d = app (app (app (constE [''Eq''] ls) \<alpha>) a) b"
    by blast
  obtain a' s2 where ia: "instantiateMVars env a (mvarContext env g c s) s1 = (a', s2)"
    by (cases "instantiateMVars env a (mvarContext env g c s) s1")
  obtain b' s3 where ib: "instantiateMVars env b (mvarContext env g c s) s2 = (b', s3)"
    by (cases "instantiateMVars env b (mvarContext env g c s) s2")
  from l have
    "((isFVar a' \<or> isFVar b') \<and>
        (\<exists>symm s4 e sf s5.
           substDirection env a' b' (mvarContext env g c s) s3 = ok symm s4 \<and>
           substCore env g h symm sub True False (mvarContext env g c s) s4 = error e sf \<and>
           isExprDefEq env a b (mvarContext env g c s) s4 = ok False s5 \<and>
           acyclicM g (fvar h) (mvarContext env g c s) s5 = ok True s')) \<or>
     (\<not> isFVar a' \<and> \<not> isFVar b' \<and>
        (\<exists>s4. isExprDefEq env a' b' (mvarContext env g c s) s3 = ok False s4 \<and>
              isConstructorApp env s4 a' \<and> isConstructorApp env s4 b' \<and>
              injectionCore env g h (mvarContext env g c s) s4 =
                ok InjectionResultCore_solved s'))"
    by (simp only: unifyEq_x3f_none_route [OF get ty ia ib])
  with get ty ia ib show ?R by blast
next
  assume ?R
  then obtain d s1 ls \<alpha> a b a' s2 b' s3 where
      get: "getLocalDecl env h (mvarContext env g c s) s = ok d s1"
    and ty: "LocalDecl_type d = app (app (app (constE [''Eq''] ls) \<alpha>) a) b"
    and ia: "instantiateMVars env a (mvarContext env g c s) s1 = (a', s2)"
    and ib: "instantiateMVars env b (mvarContext env g c s) s2 = (b', s3)"
    and r: "((isFVar a' \<or> isFVar b') \<and>
        (\<exists>symm s4 e sf s5.
           substDirection env a' b' (mvarContext env g c s) s3 = ok symm s4 \<and>
           substCore env g h symm sub True False (mvarContext env g c s) s4 = error e sf \<and>
           isExprDefEq env a b (mvarContext env g c s) s4 = ok False s5 \<and>
           acyclicM g (fvar h) (mvarContext env g c s) s5 = ok True s')) \<or>
     (\<not> isFVar a' \<and> \<not> isFVar b' \<and>
        (\<exists>s4. isExprDefEq env a' b' (mvarContext env g c s) s3 = ok False s4 \<and>
              isConstructorApp env s4 a' \<and> isConstructorApp env s4 b' \<and>
              injectionCore env g h (mvarContext env g c s) s4 =
                ok InjectionResultCore_solved s'))"
    by blast
  from r show ?L by (simp only: unifyEq_x3f_none_route [OF get ty ia ib])
qed

text \<open>
  Witness for C1.  From left to right on \<open>h : x = C x\<close> with an \<open>acyclic\<close> check that
  answers true; from right to left on \<open>h : C x = D x\<close> at case \<open>Nat.succ\<close>.
\<close>

theorem unifyEq_none_iff_solved_witness:
  "(\<exists>d s1 ls \<alpha> a b a' s2 b' s3.
      getLocalDecl (refEnv T_ex) 1 (mvarContext (refEnv T_ex) g_occ g_occ s_ex) s_ex = ok d s1 \<and>
      LocalDecl_type d = app (app (app (constE [''Eq''] ls) \<alpha>) a) b \<and>
      instantiateMVars (refEnv T_ex) a (mvarContext (refEnv T_ex) g_occ g_occ s_ex) s1 = (a', s2) \<and>
      instantiateMVars (refEnv T_ex) b (mvarContext (refEnv T_ex) g_occ g_occ s_ex) s2 = (b', s3) \<and>
      (((isFVar a' \<or> isFVar b') \<and>
          (\<exists>symm s4 e sf s5.
             substDirection (refEnv T_ex) a' b' (mvarContext (refEnv T_ex) g_occ g_occ s_ex) s3 =
               ok symm s4 \<and>
             substCore (refEnv T_ex) g_occ 1 symm [] True False
                 (mvarContext (refEnv T_ex) g_occ g_occ s_ex) s4 = error e sf \<and>
             isExprDefEq (refEnv T_ex) a b (mvarContext (refEnv T_ex) g_occ g_occ s_ex) s4 =
               ok False s5 \<and>
             acyclic_yes g_occ (fvar 1) (mvarContext (refEnv T_ex) g_occ g_occ s_ex) s5 =
               ok True s_ex)) \<or>
       (\<not> isFVar a' \<and> \<not> isFVar b' \<and>
          (\<exists>s4. isExprDefEq (refEnv T_ex) a' b' (mvarContext (refEnv T_ex) g_occ g_occ s_ex) s3 =
                  ok False s4 \<and>
                isConstructorApp (refEnv T_ex) s4 a' \<and> isConstructorApp (refEnv T_ex) s4 b' \<and>
                injectionCore (refEnv T_ex) g_occ 1 (mvarContext (refEnv T_ex) g_occ g_occ s_ex) s4 =
                  ok InjectionResultCore_solved s_ex)))) \<and>
   unifyEq_x3f (refEnv T_ex) g_cd 1 [] acyclic_no (Some [''Nat'', ''succ'']) g_cd s_ex =
     ok None s_ex"
proof -
  have h: "unifyEq_x3f (refEnv T_ex) g_occ 1 [] acyclic_yes None g_occ s_ex = ok None s_ex"
    by (simp add: eval_defs acyclic_yes_def g_occ_def)
  note fwd = iffD1 [OF unifyEq_none_iff_solved h]
  let ?c = "mvarContext (refEnv T_ex) g_cd g_cd s_ex"
  let ?cx = "app (constE [''C''] []) (fvar 0)" and ?dx = "app (constE [''D''] []) (fvar 0)"
  let ?d = "decl 1 ''h'' (mkEqE tyT ?cx ?dx) 1"
  have k1: "getLocalDecl (refEnv T_ex) 1 ?c s_ex = ok ?d s_ex"
    by (simp add: eval_defs g_cd_def)
  have k2: "LocalDecl_type ?d = app (app (app (constE [''Eq''] []) tyT) ?cx) ?dx"
    by (simp add: decl_def mkEqE_def)
  have k3: "instantiateMVars (refEnv T_ex) ?cx ?c s_ex = (?cx, s_ex)"
    by (simp add: refEnv_def T_ex_def)
  have k4: "instantiateMVars (refEnv T_ex) ?dx ?c s_ex = (?dx, s_ex)"
    by (simp add: refEnv_def T_ex_def)
  have k5: "\<not> isFVar ?cx" "\<not> isFVar ?dx"
    by (simp_all add: isFVar_def)
  have k6: "isExprDefEq (refEnv T_ex) ?cx ?dx ?c s_ex = ok False s_ex"
    by (simp add: refEnv_def T_ex_def)
  have k7: "isConstructorApp (refEnv T_ex) s_ex ?cx" "isConstructorApp (refEnv T_ex) s_ex ?dx"
    by (simp_all add: refEnv_def T_ex_def isCtor_ex_def)
  have k8: "injectionCore (refEnv T_ex) g_cd 1 ?c s_ex = ok InjectionResultCore_solved s_ex"
    by (simp add: eval_defs g_cd_def)
  have bwd: "unifyEq_x3f (refEnv T_ex) g_cd 1 [] acyclic_no (Some [''Nat'', ''succ'']) g_cd s_ex =
               ok None s_ex"
    apply (rule iffD2 [OF unifyEq_none_iff_solved])
    using k1 k2 k3 k4 k5 k6 k7 k8 by blast
  from fwd bwd show ?thesis by (rule conjI)
qed

subsection \<open>C2: identical sides\<close>




subsection \<open>C3: heterogeneous equalities\<close>

text \<open>
  C3, as stated, fails: "within the same single invocation of unifyEq?, re-classifies the
  resulting homogeneous hypothesis and continues simplifying it".  On \<open>h : HEq x x\<close> the
  invocation returns right after the conversion, with \<open>h : x = x\<close> still in the context
  and \<open>numNewEqs = 1\<close>; only a second invocation, on the new hypothesis, retires it.
\<close>

theorem unifyEq_heq_counterexample:
  "unifyEq_x3f (refEnv T_ex) g_heq 1 [] acyclic_no None g_heq s_ex =
     ok (Some \<lparr>mvarId = [decl 0 ''x'' tyT 0, decl 2 ''h'' (mkEqE tyT (fvar 0) (fvar 0)) 2],
               subst = [], numNewEqs = 1\<rparr>) (s_ex\<lparr>nextFVar := 3\<rparr>) \<and>
   unifyEq_x3f (refEnv T_ex) [decl 0 ''x'' tyT 0, decl 2 ''h'' (mkEqE tyT (fvar 0) (fvar 0)) 2] 2 []
       acyclic_no None [decl 0 ''x'' tyT 0, decl 2 ''h'' (mkEqE tyT (fvar 0) (fvar 0)) 2]
       (s_ex\<lparr>nextFVar := 3\<rparr>) =
     ok (Some \<lparr>mvarId = [decl 0 ''x'' tyT 0], subst = [], numNewEqs = 0\<rparr>) (s_ex\<lparr>nextFVar := 3\<rparr>)"
  by (simp add: eval_defs g_heq_def)

text \<open>
  C3, amended: for a hypothesis whose type is a heterogeneous equality, the dispatcher
  runs the converter and returns its goal at once, with the substitution unchanged and
  \<open>numNewEqs = 1\<close>; the new hypothesis is not classified in this invocation, and a
  failure of the converter is the failure of the invocation.
\<close>

theorem unifyEq_heq_returns_after_conversion:
  assumes "getLocalDecl env h (mvarContext env g c s) s = ok d s1"
      and "isHEq (LocalDecl_type d)"
  shows "unifyEq_x3f env g h sub acyclicM cn c s =
     (case heqToEq' env g d (mvarContext env g c s) s1 of
        error e s2 \<Rightarrow> error e s2
      | ok g1 s2 \<Rightarrow> ok (Some \<lparr>mvarId = g1, subst = sub, numNewEqs = 1\<rparr>) s2)"
  using assms
  by (simp add: unifyEq_x3f_def withMVarContext_def unifyEq_x3f_lambda_1_def)

text \<open>Witness for C3: \<open>x : T, h : HEq x x\<close>.\<close>

theorem unifyEq_heq_returns_after_conversion_witness:
  "unifyEq_x3f (refEnv T_ex) g_heq 1 [] acyclic_no None g_heq s_ex =
     ok (Some \<lparr>mvarId = [decl 0 ''x'' tyT 0, decl 2 ''h'' (mkEqE tyT (fvar 0) (fvar 0)) 2],
               subst = [], numNewEqs = 1\<rparr>) (s_ex\<lparr>nextFVar := 3\<rparr>)"
proof -
  have h1: "getLocalDecl (refEnv T_ex) 1 (mvarContext (refEnv T_ex) g_heq g_heq s_ex) s_ex =
              ok (decl 1 ''h'' (mkHEqE tyT (fvar 0) tyT (fvar 0)) 1) s_ex"
    by (simp add: eval_defs g_heq_def)
  have h2: "isHEq (LocalDecl_type (decl 1 ''h'' (mkHEqE tyT (fvar 0) tyT (fvar 0)) 1))"
    by (simp add: eval_defs)
  show ?thesis
    using unifyEq_heq_returns_after_conversion [OF h1 h2, of "[]" acyclic_no None]
    by (simp add: eval_defs g_heq_def)
qed

subsection \<open>C4: the converter\<close>



subsection \<open>C5: two local variables\<close>

text \<open>
  C5: for a hypothesis \<open>h : x = y\<close>, at any universe level, between two declared local
  variables with different declaration indices, in a well-formed context, the direction flag is the comparison of
  the two indices, the substitution succeeds with \<open>numNewEqs = 0\<close>, and the
  later-declared variable is eliminated in favour of the earlier one: it is neither
  declared nor mentioned in the result context, the earlier-declared one is still
  declared, and the hypothesis is gone.
\<close>

theorem unifyEq_two_variables:
  assumes "distinct (fvarIds g)"
      and "lookupDecl g h = Some d"
      and "LocalDecl_type d = app (app (app (constE [''Eq''] ls) \<alpha>) (fvar x)) (fvar y)"
      and "lookupDecl g x = Some dx"
      and "lookupDecl g y = Some dy"
      and "LocalDecl_index dx \<noteq> LocalDecl_index dy"
      and "t_instantiate T (fvar x) = fvar x"
      and "t_instantiate T (fvar y) = fvar y"
      and "h \<noteq> x" and "h \<noteq> y"
  shows "\<exists>r. unifyEq_x3f (refEnv T) g h sub acyclicM cn c s = ok (Some r) s \<and>
           numNewEqs r = 0 \<and>
           subst r =
             (if LocalDecl_index dx < LocalDecl_index dy then (y, fvar x) else (x, fvar y)) # sub \<and>
           (if LocalDecl_index dx < LocalDecl_index dy then y else x) \<notin> set (fvarIds (mvarId r)) \<and>
           (if LocalDecl_index dx < LocalDecl_index dy then x else y) \<in> set (fvarIds (mvarId r)) \<and>
           h \<notin> set (fvarIds (mvarId r)) \<and>
           (\<forall>d' \<in> set (mvarId r).
              \<not> occursFVar (if LocalDecl_index dx < LocalDecl_index dy then y else x)
                  (LocalDecl_type d'))"
proof -
  have xy: "x \<noteq> y" using assms(4,5,6) by auto
  have get: "getLocalDecl (refEnv T) h (mvarContext (refEnv T) g c s) s = ok d s"
    using assms(2) by (simp add: ref_getLocalDecl_Some)
  have ia: "instantiateMVars (refEnv T) (fvar x) (mvarContext (refEnv T) g c s) s = (fvar x, s)"
    using assms(7) by simp
  have ib: "instantiateMVars (refEnv T) (fvar y) (mvarContext (refEnv T) g c s) s = (fvar y, s)"
    using assms(8) by simp
  note route = unifyEq_x3f_route [OF get assms(3) ia ib, of sub acyclicM cn]
  have xin: "x \<in> set (fvarIds g)" and yin: "y \<in> set (fvarIds g)"
    using assms(4,5) by (auto dest: lookupDecl_mem)
  show ?thesis
  proof (cases "LocalDecl_index dx < LocalDecl_index dy")
    case True
    have sc: "ref_substCore T g h True sub True False g s =
        ok ((y, fvar x) # sub,
            map (\<lambda>d'. d'\<lparr>LocalDecl_type := replaceFVar y (fvar x) (LocalDecl_type d')\<rparr>)
              (filter (\<lambda>d'. LocalDecl_fvarId d' \<noteq> y \<and> LocalDecl_fvarId d' \<noteq> h) g)) s"
      using assms(2,3,7,8) xy by (simp add: ref_substCore_def)
    have run: "unifyEq_x3f (refEnv T) g h sub acyclicM cn c s =
        ok (Some \<lparr>mvarId =
                    map (\<lambda>d'. d'\<lparr>LocalDecl_type := replaceFVar y (fvar x) (LocalDecl_type d')\<rparr>)
                      (filter (\<lambda>d'. LocalDecl_fvarId d' \<noteq> y \<and> LocalDecl_fvarId d' \<noteq> h) g),
                  subst = (y, fvar x) # sub, numNewEqs = 0\<rparr>) s"
      using True assms(4,5) sc
      by (simp add: route ref_getLocalDecl_Some substEq_def observing_x3f_def)
    have occ: "\<not> occursFVar y (fvar x)" using xy by simp
    show ?thesis
      using True run xin xy assms(9) types_subst_ctx [OF occ]
      by (simp add: fvarIds_subst_ctx del: set_map set_filter)
  next
    case False
    have sc: "ref_substCore T g h False sub True False g s =
        ok ((x, fvar y) # sub,
            map (\<lambda>d'. d'\<lparr>LocalDecl_type := replaceFVar x (fvar y) (LocalDecl_type d')\<rparr>)
              (filter (\<lambda>d'. LocalDecl_fvarId d' \<noteq> x \<and> LocalDecl_fvarId d' \<noteq> h) g)) s"
      using assms(2,3,7,8) xy by (simp add: ref_substCore_def)
    have run: "unifyEq_x3f (refEnv T) g h sub acyclicM cn c s =
        ok (Some \<lparr>mvarId =
                    map (\<lambda>d'. d'\<lparr>LocalDecl_type := replaceFVar x (fvar y) (LocalDecl_type d')\<rparr>)
                      (filter (\<lambda>d'. LocalDecl_fvarId d' \<noteq> x \<and> LocalDecl_fvarId d' \<noteq> h) g),
                  subst = (x, fvar y) # sub, numNewEqs = 0\<rparr>) s"
      using False assms(4,5) sc
      by (simp add: route ref_getLocalDecl_Some substEq_def observing_x3f_def)
    have occ: "\<not> occursFVar x (fvar y)" using xy by simp
    show ?thesis
      using False run yin xy assms(10) types_subst_ctx [OF occ]
      by (simp add: fvarIds_subst_ctx del: set_map set_filter)
  qed
qed

text \<open>Witness for C5: in \<open>x y : T, h : x = y\<close> the later-declared \<open>y\<close> is eliminated.\<close>

theorem unifyEq_two_variables_witness:
  "\<exists>r. unifyEq_x3f (refEnv T_ex) g_xy 2 [] acyclic_no None g_xy s_ex = ok (Some r) s_ex \<and>
        numNewEqs r = 0 \<and> subst r = [(1, fvar 0)] \<and>
        1 \<notin> set (fvarIds (mvarId r)) \<and> 0 \<in> set (fvarIds (mvarId r)) \<and>
        2 \<notin> set (fvarIds (mvarId r)) \<and>
        (\<forall>d' \<in> set (mvarId r). \<not> occursFVar 1 (LocalDecl_type d'))"
proof -
  have h1: "distinct (fvarIds g_xy)"
    by (simp add: fvarIds_def g_xy_def decl_def)
  have h2: "lookupDecl g_xy 2 = Some (decl 2 ''h'' (mkEqE tyT (fvar 0) (fvar 1)) 2)"
    by (simp add: lookupDecl_def g_xy_def decl_def)
  have h3: "LocalDecl_type (decl 2 ''h'' (mkEqE tyT (fvar 0) (fvar 1)) 2) =
              app (app (app (constE [''Eq''] []) tyT) (fvar 0)) (fvar 1)"
    by (simp add: decl_def mkEqE_def)
  have h4: "lookupDecl g_xy 0 = Some (decl 0 ''x'' tyT 0)"
    by (simp add: lookupDecl_def g_xy_def decl_def)
  have h5: "lookupDecl g_xy 1 = Some (decl 1 ''y'' tyT 1)"
    by (simp add: lookupDecl_def g_xy_def decl_def)
  have h6: "LocalDecl_index (decl 0 ''x'' tyT 0) \<noteq> LocalDecl_index (decl 1 ''y'' tyT 1)"
    by (simp add: decl_def)
  have h7: "t_instantiate T_ex (fvar 0) = fvar 0" and h8: "t_instantiate T_ex (fvar 1) = fvar 1"
    by (simp_all add: T_ex_def)
  have h9: "(2::nat) \<noteq> 0" and h10: "(2::nat) \<noteq> 1"
    by simp_all
  have i: "LocalDecl_index (decl 0 ''x'' tyT 0) < LocalDecl_index (decl 1 ''y'' tyT 1)"
    by (simp add: decl_def)
  show ?thesis
    using unifyEq_two_variables [OF h1 h2 h3 h4 h5 h6 h7 h8 h9 h10,
        of "[]" acyclic_no None g_xy s_ex] i
    by simp
qed

subsection \<open>C6: the unsolvable equation\<close>




subsection \<open>C7: the routes of a homogeneous equality\<close>

text \<open>
  C7, as stated, fails: "the Dispatcher weak-head-reduces both sides before deciding the
  route: if both reduced sides are local-variable references it delegates to the
  DirectSubstituter".  Both sides of \<open>h : id x = id y\<close> reduce to local variables, yet
  the invocation does not substitute: it re-asserts the reduced equation \<open>x = y\<close> and
  returns \<open>numNewEqs = 1\<close>, which the substituter on \<open>x\<close> and \<open>y\<close> never returns.
\<close>

theorem unifyEq_routing_counterexample:
  "t_whnf T_ex (app (constE [''id''] []) (fvar 0)) = fvar 0 \<and>
   t_whnf T_ex (app (constE [''id''] []) (fvar 1)) = fvar 1 \<and>
   unifyEq_x3f (refEnv T_ex) g_id 2 [] acyclic_no None g_id s_ex =
     ok (Some \<lparr>mvarId = [decl 0 ''x'' tyT 0, decl 1 ''y'' tyT 1,
                          decl 3 ''h'' (mkEqE tyT (fvar 0) (fvar 1)) 3],
               subst = [], numNewEqs = 1\<rparr>) (s_ex\<lparr>nextFVar := 4\<rparr>) \<and>
   unifyEq_x3f (refEnv T_ex) g_id 2 [] acyclic_no None g_id s_ex \<noteq>
     substEq (refEnv T_ex) g_id 2 [] acyclic_no
       (decl 2 ''h'' (mkEqE tyT (app (constE [''id''] []) (fvar 0))
                               (app (constE [''id''] []) (fvar 1))) 2)
       (fvar 0) (fvar 1) True g_id s_ex"
  by (simp add: eval_defs g_id_def)

text \<open>
  C7, amended: for a homogeneous equality \<open>h : a = b\<close> the dispatcher instantiates the
  assigned metavariables of both sides, without weak-head reduction, and decides on the
  results \<open>a'\<close> and \<open>b'\<close>: both local variables, \<open>substEq\<close> with the flag "index of
  \<open>a'\<close> below index of \<open>b'\<close>"; only \<open>a'\<close> a variable, \<open>substEq\<close> with the flag off;
  only \<open>b'\<close> a variable, \<open>substEq\<close> with the flag on; neither, the hypothesis is
  cleared with \<open>numNewEqs = 0\<close> when \<open>a'\<close> and \<open>b'\<close> are definitionally equal, and
  \<open>injection\<close> takes over otherwise (constructor applications and weak-head reduction are
  looked at only there).
\<close>

theorem unifyEq_homogeneous_routing:
  assumes "getLocalDecl env h (mvarContext env g c s) s = ok d s1"
      and "LocalDecl_type d = app (app (app (constE [''Eq''] ls) \<alpha>) a) b"
      and "instantiateMVars env a (mvarContext env g c s) s1 = (a', s2)"
      and "instantiateMVars env b (mvarContext env g c s) s2 = (b', s3)"
  shows "unifyEq_x3f env g h sub acyclicM cn c s =
     (if isFVar a' \<and> isFVar b' then
        (case getLocalDecl env (fvarId_x21 a') (mvarContext env g c s) s3 of
           error e s4 \<Rightarrow> error e s4
         | ok aDecl s4 \<Rightarrow>
             (case getLocalDecl env (fvarId_x21 b') (mvarContext env g c s) s4 of
                error e s5 \<Rightarrow> error e s5
              | ok bDecl s5 \<Rightarrow>
                  substEq env g h sub acyclicM d a b
                    (LocalDecl_index aDecl < LocalDecl_index bDecl) (mvarContext env g c s) s5))
      else if isFVar a' then substEq env g h sub acyclicM d a b False (mvarContext env g c s) s3
      else if isFVar b' then substEq env g h sub acyclicM d a b True (mvarContext env g c s) s3
      else
        (case isExprDefEq env a' b' (mvarContext env g c s) s3 of
           error e s4 \<Rightarrow> error e s4
         | ok dq s4 \<Rightarrow>
             if dq then
               (case clear env g h (mvarContext env g c s) s4 of
                  error e s5 \<Rightarrow> error e s5
                | ok g1 s5 \<Rightarrow> ok (Some \<lparr>mvarId = g1, subst = sub, numNewEqs = 0\<rparr>) s5)
             else injection env g h sub cn d a' b' (mvarContext env g c s) s4))"
  by (rule unifyEq_x3f_route [OF assms])

text \<open>Witness for C7: \<open>x y : T, h : x = y\<close> goes to \<open>substEq\<close> with the flag on.\<close>

theorem unifyEq_homogeneous_routing_witness:
  "unifyEq_x3f (refEnv T_ex) g_xy 2 [] acyclic_no None g_xy s_ex =
     substEq (refEnv T_ex) g_xy 2 [] acyclic_no (decl 2 ''h'' (mkEqE tyT (fvar 0) (fvar 1)) 2)
       (fvar 0) (fvar 1) True g_xy s_ex"
proof -
  have h1: "getLocalDecl (refEnv T_ex) 2 (mvarContext (refEnv T_ex) g_xy g_xy s_ex) s_ex =
              ok (decl 2 ''h'' (mkEqE tyT (fvar 0) (fvar 1)) 2) s_ex"
    by (simp add: eval_defs g_xy_def)
  have h2: "LocalDecl_type (decl 2 ''h'' (mkEqE tyT (fvar 0) (fvar 1)) 2) =
              app (app (app (constE [''Eq''] []) tyT) (fvar 0)) (fvar 1)"
    by (simp add: decl_def mkEqE_def)
  have h3: "instantiateMVars (refEnv T_ex) (fvar 0) (mvarContext (refEnv T_ex) g_xy g_xy s_ex) s_ex =
              (fvar 0, s_ex)"
    by (simp add: refEnv_def T_ex_def)
  have h4: "instantiateMVars (refEnv T_ex) (fvar 1) (mvarContext (refEnv T_ex) g_xy g_xy s_ex) s_ex =
              (fvar 1, s_ex)"
    by (simp add: refEnv_def T_ex_def)
  have l: "ref_getLocalDecl 0 g_xy s_ex = ok (decl 0 ''x'' tyT 0) s_ex"
          "ref_getLocalDecl 1 g_xy s_ex = ok (decl 1 ''y'' tyT 1) s_ex"
    by (simp_all add: ref_getLocalDecl_def lookupDecl_def g_xy_def decl_def)
  have i: "LocalDecl_index (decl 0 ''x'' tyT 0) < LocalDecl_index (decl 1 ''y'' tyT 1)"
    by (simp add: decl_def)
  show ?thesis
    using unifyEq_homogeneous_routing [OF h1 h2 h3 h4, of "[]" acyclic_no None] l i
    by simp
qed

subsection \<open>C8: constructor injection\<close>

text \<open>
  C8, as stated, fails: "recursively passes each produced field-equality hypothesis back
  into the Dispatcher within the same invocation ... (fully resolved ones contribute 0)".
  On \<open>h : C a b1 = C a b2\<close> the invocation returns the two field equalities \<open>a = a\<close> and
  \<open>b1 = b2\<close> untouched and counts both, although the dispatcher, invoked on \<open>a = a\<close>,
  resolves it with \<open>numNewEqs = 0\<close>.
\<close>

theorem unifyEq_injection_counterexample:
  "unifyEq_x3f (refEnv T_ex) g_ctor 3 [] acyclic_no None g_ctor s_ex =
     ok (Some \<lparr>mvarId = [decl 0 ''a'' tyT 0, decl 1 ''b1'' tyT 1, decl 2 ''b2'' tyT 2,
                          decl 4 ''h'' (mkEqE tyT (fvar 0) (fvar 0)) 4,
                          decl 5 ''h'' (mkEqE tyT (fvar 1) (fvar 2)) 5],
               subst = [], numNewEqs = 2\<rparr>) (s_ex\<lparr>nextFVar := 6\<rparr>) \<and>
   unifyEq_x3f (refEnv T_ex)
       [decl 0 ''a'' tyT 0, decl 1 ''b1'' tyT 1, decl 2 ''b2'' tyT 2,
        decl 4 ''h'' (mkEqE tyT (fvar 0) (fvar 0)) 4,
        decl 5 ''h'' (mkEqE tyT (fvar 1) (fvar 2)) 5] 4 [] acyclic_no None
       [decl 0 ''a'' tyT 0, decl 1 ''b1'' tyT 1, decl 2 ''b2'' tyT 2,
        decl 4 ''h'' (mkEqE tyT (fvar 0) (fvar 0)) 4,
        decl 5 ''h'' (mkEqE tyT (fvar 1) (fvar 2)) 5] (s_ex\<lparr>nextFVar := 6\<rparr>) =
     ok (Some \<lparr>mvarId = [decl 0 ''a'' tyT 0, decl 1 ''b1'' tyT 1, decl 2 ''b2'' tyT 2,
                          decl 5 ''h'' (mkEqE tyT (fvar 1) (fvar 2)) 5],
               subst = [], numNewEqs = 0\<rparr>) (s_ex\<lparr>nextFVar := 6\<rparr>)"
  by (simp add: eval_defs g_ctor_def)

text \<open>
  C8, amended: for an equality whose two sides (metavariables instantiated) are
  constructor applications, neither a local variable, and not definitionally equal,
  \<open>unifyEq?\<close> calls \<open>injectionCore\<close> once on the hypothesis and returns what it
  reports: \<open>none\<close> when the goal is solved, otherwise its goal with the substitution
  unchanged and \<open>numNewEqs\<close> equal to the number of field equalities it produced.  No
  produced hypothesis is passed back to the dispatcher in this invocation.
\<close>

theorem unifyEq_injection_no_redispatch:
  assumes "getLocalDecl env h (mvarContext env g c s) s = ok d s1"
      and "LocalDecl_type d = app (app (app (constE [''Eq''] ls) \<alpha>) a) b"
      and "instantiateMVars env a (mvarContext env g c s) s1 = (a', s2)"
      and "instantiateMVars env b (mvarContext env g c s) s2 = (b', s3)"
      and "\<not> isFVar a'" and "\<not> isFVar b'"
      and "isExprDefEq env a' b' (mvarContext env g c s) s3 = ok False s4"
      and "isConstructorApp env s4 a'" and "isConstructorApp env s4 b'"
  shows "unifyEq_x3f env g h sub acyclicM cn c s =
     (case injectionCore env g h (mvarContext env g c s) s4 of
        error e s5 \<Rightarrow> error e s5
      | ok r s5 \<Rightarrow>
          (case r of
             InjectionResultCore_solved \<Rightarrow> ok None s5
           | InjectionResultCore_subgoal g1 n \<Rightarrow>
               ok (Some \<lparr>mvarId = g1, subst = sub, numNewEqs = n\<rparr>) s5))"
  using assms(5-9)
  by (simp add: unifyEq_x3f_route [OF assms(1-4)] injection_def)

text \<open>Witness for C8: \<open>b1 b2 : T, h : C b1 = C b2\<close> yields the one field equality
  \<open>b1 = b2\<close>, counted and left in the context.\<close>

theorem unifyEq_injection_no_redispatch_witness:
  "unifyEq_x3f (refEnv T_ex) g_ctor1 2 [] acyclic_no None g_ctor1 s_ex =
     ok (Some \<lparr>mvarId = [decl 0 ''b1'' tyT 0, decl 1 ''b2'' tyT 1,
                          decl 3 ''h'' (mkEqE tyT (fvar 0) (fvar 1)) 3],
               subst = [], numNewEqs = 1\<rparr>) (s_ex\<lparr>nextFVar := 4\<rparr>)"
proof -
  have h1: "getLocalDecl (refEnv T_ex) 2 (mvarContext (refEnv T_ex) g_ctor1 g_ctor1 s_ex) s_ex =
              ok (decl 2 ''h'' (mkEqE tyT (app (constE [''C''] []) (fvar 0))
                                         (app (constE [''C''] []) (fvar 1))) 2) s_ex"
    by (simp add: eval_defs g_ctor1_def)
  have h2: "LocalDecl_type (decl 2 ''h'' (mkEqE tyT (app (constE [''C''] []) (fvar 0))
                                         (app (constE [''C''] []) (fvar 1))) 2) =
              app (app (app (constE [''Eq''] []) tyT) (app (constE [''C''] []) (fvar 0)))
                (app (constE [''C''] []) (fvar 1))"
    by (simp add: decl_def mkEqE_def)
  have h3: "instantiateMVars (refEnv T_ex) (app (constE [''C''] []) (fvar 0))
              (mvarContext (refEnv T_ex) g_ctor1 g_ctor1 s_ex) s_ex =
              (app (constE [''C''] []) (fvar 0), s_ex)"
    by (simp add: refEnv_def T_ex_def)
  have h4: "instantiateMVars (refEnv T_ex) (app (constE [''C''] []) (fvar 1))
              (mvarContext (refEnv T_ex) g_ctor1 g_ctor1 s_ex) s_ex =
              (app (constE [''C''] []) (fvar 1), s_ex)"
    by (simp add: refEnv_def T_ex_def)
  have h5: "\<not> isFVar (app (constE [''C''] []) (fvar 0))"
    and h6: "\<not> isFVar (app (constE [''C''] []) (fvar 1))"
    by (simp_all add: isFVar_def)
  have h7: "isExprDefEq (refEnv T_ex) (app (constE [''C''] []) (fvar 0))
              (app (constE [''C''] []) (fvar 1))
              (mvarContext (refEnv T_ex) g_ctor1 g_ctor1 s_ex) s_ex = ok False s_ex"
    by (simp add: refEnv_def T_ex_def)
  have h8: "isConstructorApp (refEnv T_ex) s_ex (app (constE [''C''] []) (fvar 0))"
    and h9: "isConstructorApp (refEnv T_ex) s_ex (app (constE [''C''] []) (fvar 1))"
    by (simp_all add: refEnv_def T_ex_def isCtor_ex_def)
  show ?thesis
    using unifyEq_injection_no_redispatch [OF h1 h2 h3 h4 h5 h6 h7 h8 h9, of "[]" acyclic_no None]
    by (simp add: eval_defs g_ctor1_def)
qed

subsection \<open>C9: not an equality\<close>

text \<open>
  C9: when the type of the hypothesis is neither a heterogeneous equality nor an
  application of \<open>Eq\<close> to three arguments, \<open>unifyEq?\<close> ends in the error "equality
  expected" followed by the indented type of the hypothesis, directly after reading the
  declaration: no other oracle is consulted and no other route is tried.
\<close>

theorem unifyEq_not_equality_fatal:
  assumes "getLocalDecl env eqFVarId (mvarContext env g c s) s = ok eqDecl s1"
      and "\<not> isHEq (LocalDecl_type eqDecl)"
      and "\<not> isAppOfArity (LocalDecl_type eqDecl) [''Eq''] 3"
  shows "unifyEq_x3f env g eqFVarId sub acyclicM caseName c s =
         error (Exception_error (ctxRef env (mvarContext env g c s))
                 (fst (addMessageContextFull env (equality_expected (LocalDecl_type eqDecl))
                         (mvarContext env g c s) s1)))
               (snd (addMessageContextFull env (equality_expected (LocalDecl_type eqDecl))
                       (mvarContext env g c s) s1))"
  using assms
  by (simp add: unifyEq_x3f_def withMVarContext_def unifyEq_x3f_lambda_1_def throwError_def
        split: prod.splits)

text \<open>Witness for C9: \<open>h : True\<close>.\<close>

theorem unifyEq_not_equality_fatal_witness:
  "unifyEq_x3f (refEnv T_ex) g_true 0 [] acyclic_no None g_true s_ex =
     error (Exception_error 0
              (compose (compose (stringToMessageData ''equality expected'')
                          (indentExpr (constE [''True''] [])))
                 (stringToMessageData []))) s_ex"
proof -
  have h1: "getLocalDecl (refEnv T_ex) 0 (mvarContext (refEnv T_ex) g_true g_true s_ex) s_ex =
              ok (decl 0 ''h'' (constE [''True''] []) 0) s_ex"
    by (simp add: eval_defs g_true_def)
  have h2: "\<not> isHEq (LocalDecl_type (decl 0 ''h'' (constE [''True''] []) 0))"
    by (simp add: isHEq_def decl_def eval_nat_numeral)
  have h3: "\<not> isAppOfArity (LocalDecl_type (decl 0 ''h'' (constE [''True''] []) 0)) [''Eq''] 3"
    by (simp add: decl_def eval_nat_numeral)
  show ?thesis
    using unifyEq_not_equality_fatal [OF h1 h2 h3, of "[]" acyclic_no None]
    by (simp add: refEnv_def decl_def equality_expected_def)
qed

subsection \<open>C10: the reduced equation is deferred\<close>



end
